theory Spec2Isabelle
  imports Complex_Main "HOL-Library.Multiset"
begin

section \<open>Rate limiter (src/lib/rate-limit.ts)\<close>

text \<open>
  The module keeps one process-wide object \<^verbatim>\<open>store\<close>, a dictionary from the caller's
  identifier to \<^verbatim>\<open>{ count, resetTime }\<close>. The dictionary is a map, and the mutation of
  the module variable is explicit state passing: \<open>checkRateLimit\<close> takes the store and
  the value that \<^verbatim>\<open>Date.now()\<close> returned, and gives back the record it returns together
  with the store it leaves behind. Times are integer milliseconds; \<^verbatim>\<open>count\<close> starts at
  0 and is only ever incremented, so it is a natural number (the field is \<open>count_rl\<close>
  here, \<open>count\<close> being the multiplicity of multisets).
\<close>

record entry =
  count_rl :: nat
  resetTime :: int

type_synonym RateLimitStore = "string \<rightharpoonup> entry"

record RateLimitConfig =
  windowMs :: int
  maxRequests :: int

record RateLimitInfo =
  limit :: int
  remaining :: int
  reset :: int

definition DEFAULT_RATE_LIMIT :: RateLimitConfig where
  "DEFAULT_RATE_LIMIT = \<lparr>windowMs = 60 * 1000, maxRequests = 20\<rparr>"

text \<open>
  \<^verbatim>\<open>if (store[key] && store[key].resetTime < now) delete store[key]\<close> gives \<open>cleaned\<close>;
  \<^verbatim>\<open>if (!store[key]) store[key] = { count: 0, resetTime: now + config.windowMs }\<close> gives
  \<open>current\<close>; \<^verbatim>\<open>limitInfo\<close> aliases the stored object, so \<^verbatim>\<open>limitInfo.count++\<close> is an
  update of the store.
\<close>

definition checkRateLimit ::
  "string \<Rightarrow> RateLimitConfig \<Rightarrow> int \<Rightarrow> RateLimitStore \<Rightarrow> RateLimitInfo \<times> RateLimitStore" where
  "checkRateLimit identifier config now store =
     (let key = identifier;
          cleaned = (case store key of
                       Some e \<Rightarrow> if resetTime e < now then store(key := None) else store
                     | None \<Rightarrow> store);
          current = (case cleaned key of
                       None \<Rightarrow> \<lparr>count_rl = 0, resetTime = now + windowMs config\<rparr>
                     | Some e \<Rightarrow> e);
          limitInfo = current\<lparr>count_rl := count_rl current + 1\<rparr>;
          remaining = max 0 (maxRequests config - int (count_rl limitInfo))
      in (\<lparr>limit = maxRequests config, remaining = remaining, reset = resetTime limitInfo\<rparr>,
          cleaned(key \<mapsto> limitInfo)))"

definition isRateLimited :: "RateLimitInfo \<Rightarrow> bool" where
  "isRateLimited info = (remaining info \<le> 0)"

text \<open>
  A caller that checks the limit once per request, at the given successive readings of
  the clock: the records returned, in order, and the final store.
\<close>

fun checkRateLimit_calls ::
  "string \<Rightarrow> RateLimitConfig \<Rightarrow> int list \<Rightarrow> RateLimitStore \<Rightarrow> RateLimitInfo list \<times> RateLimitStore" where
  "checkRateLimit_calls identifier config [] store = ([], store)"
| "checkRateLimit_calls identifier config (now # nows) store =
     (case checkRateLimit identifier config now store of
        (info, store') \<Rightarrow>
          (case checkRateLimit_calls identifier config nows store' of
             (infos, store'') \<Rightarrow> (info # infos, store'')))"

section \<open>Hybrid ranker (recency re-ranking snippet, src/Claude_master-prompt.md)\<close>

subsection \<open>JavaScript numbers\<close>

text \<open>
  The ranker computes on JavaScript numbers. A timestamp in the index metadata is the
  result of \<^verbatim>\<open>new Date(...).getTime()\<close>, which is \<^verbatim>\<open>NaN\<close> for a date that does not
  parse, and every arithmetic operation and \<^verbatim>\<open>Math.max\<close> give \<^verbatim>\<open>NaN\<close> as soon as one
  operand is \<^verbatim>\<open>NaN\<close>. A number is therefore \<open>NaN\<close> or a real value; rounding of
  doubles is not modelled, and no infinity arises since the only divisor is the non-zero
  constant \<open>THREE_YEARS_MS\<close>.
\<close>

datatype jsnum = NaN | Num real









subsection \<open>Array.prototype.sort\<close>



subsection \<open>The re-ranking step\<close>

text \<open>
  A candidate is a match of the vector index: its identifier, its similarity \<^verbatim>\<open>score\<close>
  and its \<^verbatim>\<open>metadata\<close>, of which the ranker reads \<^verbatim>\<open>image_purchase_date\<close> only. The
  \<^verbatim>\<open>forEach\<close> adds the property \<^verbatim>\<open>combinedScore\<close> to each candidate object; the record
  \<open>ranked\<close> is a candidate extended with it. The identifier \<^verbatim>\<open>id\<close> is \<open>cand_id\<close> here,
  and \<open>asset_id\<close> in the assets of a reply.
\<close>

record metadata =
  image_purchase_date :: jsnum

record candidate =
  cand_id :: string
  score :: jsnum
  metadata :: metadata

record ranked = candidate +
  combinedScore :: jsnum










section \<open>Response generator (src/lib/gemini.ts, with the schemas of src/unnamed/part_001)\<close>

subsection \<open>Thrown values and JSON\<close>

text \<open>
  A thrown value is an error object with its message; \<^verbatim>\<open>AuthError\<close> is the subclass that
  the authentication helpers throw. A function that may throw returns a sum, \<open>Inl\<close> the
  thrown value.
\<close>

datatype js_error = Error string | AuthError string

datatype json =
    JNull
  | JBool bool
  | JNumber real
  | JString string
  | JArray "json list"
  | JObject "(string \<times> json) list"

text \<open>
  Reading a property of a parsed value: \<open>None\<close> is \<^verbatim>\<open>undefined\<close>. (\<^verbatim>\<open>JSON.parse\<close> gives
  each key of an object once.)
\<close>

fun property :: "json \<Rightarrow> string \<Rightarrow> json option" where
  "property (JObject kvs) k = map_of kvs k"
| "property _ k = None"

subsection \<open>The zod schemas \<^verbatim>\<open>BrandonAssetSchema\<close> and \<^verbatim>\<open>GeminiChatResponseSchema\<close>\<close>

text \<open>
  \<^verbatim>\<open>z.string()\<close> accepts a string and nothing else (no coercion);
  \<^verbatim>\<open>z.string().uuid()\<close> also asks for the shape of a UUID, five groups of 8, 4, 4, 4 and
  12 hexadecimal digits separated by hyphens; \<^verbatim>\<open>z.string().optional().nullable()\<close>
  accepts a missing property, \<^verbatim>\<open>null\<close> or a string; \<^verbatim>\<open>z.array(s)\<close> accepts an array all
  of whose elements \<^verbatim>\<open>s\<close> accepts; \<^verbatim>\<open>z.object({...})\<close> accepts an object whose listed
  properties are accepted and returns these properties only. \<open>None\<close> stands for the
  \<^verbatim>\<open>ZodError\<close> that \<^verbatim>\<open>.parse\<close> throws.
\<close>

datatype 'a optional_nullable = Missing | Null | Present 'a

record BrandonAsset =
  asset_id :: string
  dam_id :: "string optional_nullable"
  file_name :: "string optional_nullable"
  url :: "string optional_nullable"
  preview_path :: string
  label :: string
  reason :: string

record GeminiChatResponse =
  assistant_message :: string
  assets :: "BrandonAsset list"

fun z_string :: "json option \<Rightarrow> string option" where
  "z_string (Some (JString s)) = Some s"
| "z_string _ = None"

definition is_hex :: "char \<Rightarrow> bool" where
  "is_hex c = (c \<in> set ''0123456789abcdefABCDEF'')"

definition is_uuid :: "string \<Rightarrow> bool" where
  "is_uuid s =
     (length s = 36 \<and>
      list_all is_hex (take 8 s) \<and> s ! 8 = CHR ''-'' \<and>
      list_all is_hex (take 4 (drop 9 s)) \<and> s ! 13 = CHR ''-'' \<and>
      list_all is_hex (take 4 (drop 14 s)) \<and> s ! 18 = CHR ''-'' \<and>
      list_all is_hex (take 4 (drop 19 s)) \<and> s ! 23 = CHR ''-'' \<and>
      list_all is_hex (drop 24 s))"

definition z_string_uuid :: "json option \<Rightarrow> string option" where
  "z_string_uuid v = (case z_string v of
                        Some s \<Rightarrow> if is_uuid s then Some s else None
                      | None \<Rightarrow> None)"

fun z_string_optional_nullable :: "json option \<Rightarrow> string optional_nullable option" where
  "z_string_optional_nullable None = Some Missing"
| "z_string_optional_nullable (Some JNull) = Some Null"
| "z_string_optional_nullable (Some (JString s)) = Some (Present s)"
| "z_string_optional_nullable _ = None"

fun BrandonAssetSchema_parse :: "json \<Rightarrow> BrandonAsset option" where
  "BrandonAssetSchema_parse (JObject kvs) =
     (case z_string_uuid (map_of kvs ''id'') of None \<Rightarrow> None | Some i \<Rightarrow>
      case z_string_optional_nullable (map_of kvs ''dam_id'') of None \<Rightarrow> None | Some d \<Rightarrow>
      case z_string_optional_nullable (map_of kvs ''file_name'') of None \<Rightarrow> None | Some f \<Rightarrow>
      case z_string_optional_nullable (map_of kvs ''url'') of None \<Rightarrow> None | Some u \<Rightarrow>
      case z_string (map_of kvs ''preview_path'') of None \<Rightarrow> None | Some p \<Rightarrow>
      case z_string (map_of kvs ''label'') of None \<Rightarrow> None | Some l \<Rightarrow>
      case z_string (map_of kvs ''reason'') of None \<Rightarrow> None | Some r \<Rightarrow>
        Some \<lparr>asset_id = i, dam_id = d, file_name = f, url = u,
              preview_path = p, label = l, reason = r\<rparr>)"
| "BrandonAssetSchema_parse _ = None"

fun z_array_BrandonAsset :: "json option \<Rightarrow> BrandonAsset list option" where
  "z_array_BrandonAsset (Some (JArray vs)) = those (map BrandonAssetSchema_parse vs)"
| "z_array_BrandonAsset _ = None"

fun GeminiChatResponseSchema_parse :: "json \<Rightarrow> GeminiChatResponse option" where
  "GeminiChatResponseSchema_parse (JObject kvs) =
     (case z_string (map_of kvs ''assistant_message'') of None \<Rightarrow> None | Some m \<Rightarrow>
      case z_array_BrandonAsset (map_of kvs ''assets'') of None \<Rightarrow> None | Some as \<Rightarrow>
        Some \<lparr>assistant_message = m, assets = as\<rparr>)"
| "GeminiChatResponseSchema_parse _ = None"

subsection \<open>Extracting the JSON text from the reply\<close>

text \<open>
  \<^verbatim>\<open>trim\<close> (of the ASCII white space and line terminators; a string is a list of
  bytes here), \<^verbatim>\<open>startsWith\<close> and the two global replacements that remove Markdown code
  fences: \<^verbatim>\<open>replace(/<fence>\n?/g, '')\<close> deletes every occurrence of the opening fence
  together with a newline that follows it, \<^verbatim>\<open>replace(/\n?```/g, '')\<close> every remaining
  fence together with a newline that precedes it. Matches are sought from left to right
  in the original text and do not overlap.
\<close>

definition newline :: char where
  "newline = CHR 0x0A"

definition fence :: string where
  "fence = [CHR 0x60, CHR 0x60, CHR 0x60]"

definition js_whitespace :: "char \<Rightarrow> bool" where
  "js_whitespace c = (c \<in> set [CHR 0x09, CHR 0x0A, CHR 0x0B, CHR 0x0C, CHR 0x0D, CHR 0x20])"

definition trim :: "string \<Rightarrow> string" where
  "trim s = rev (dropWhile js_whitespace (rev (dropWhile js_whitespace s)))"

definition startsWith :: "string \<Rightarrow> string \<Rightarrow> bool" where
  "startsWith s p = (take (length p) s = p)"

fun replace_opening :: "string \<Rightarrow> string \<Rightarrow> string" where
  "replace_opening pat [] = []"
| "replace_opening pat (c # cs) =
     (if pat \<noteq> [] \<and> startsWith (c # cs) (pat @ [newline])
        then replace_opening pat (drop (length pat) cs)
      else if pat \<noteq> [] \<and> startsWith (c # cs) pat
        then replace_opening pat (drop (length pat - 1) cs)
      else c # replace_opening pat cs)"

fun replace_closing :: "string \<Rightarrow> string" where
  "replace_closing [] = []"
| "replace_closing (c # cs) =
     (if startsWith (c # cs) (newline # fence) then replace_closing (drop 3 cs)
      else if startsWith (c # cs) fence then replace_closing (drop 2 cs)
      else c # replace_closing cs)"

definition extract_json :: "string \<Rightarrow> string" where
  "extract_json responseText =
     (let jsonText = trim responseText
      in if startsWith jsonText (fence @ ''json'')
           then replace_closing (replace_opening (fence @ ''json'') jsonText)
         else if startsWith jsonText fence
           then replace_closing (replace_opening fence jsonText)
         else jsonText)"

subsection \<open>generateChatResponse\<close>

text \<open>
  The generative model, \<^verbatim>\<open>JSON.parse\<close> and \<^verbatim>\<open>JSON.stringify\<close> are outside the repository
  and are parameters: \<open>chatModel\<close> maps the prompt to the text of the reply, or to the
  value thrown by \<^verbatim>\<open>generateContent\<close> or \<^verbatim>\<open>response.text()\<close>; \<open>JSON_parse\<close> maps a text to
  the value it denotes, or to the \<^verbatim>\<open>SyntaxError\<close> it throws. The candidates are
  \<^verbatim>\<open>any[]\<close>, any type here, and plain data that \<^verbatim>\<open>JSON.stringify\<close> renders.
  Everything from the call of the model to the schema check is inside one \<^verbatim>\<open>try\<close>,
  whose \<^verbatim>\<open>catch\<close> logs the value caught and throws a new
  \<^verbatim>\<open>Error('Failed to generate chat response')\<close>.
\<close>

definition chat_prompt :: "('c list \<Rightarrow> string) \<Rightarrow> string \<Rightarrow> 'c list \<Rightarrow> string" where
  "chat_prompt JSON_stringify userQuery candidates =
     ''User Query: '' @ userQuery @ [newline, newline] @ ''Candidates:'' @ [newline] @
     JSON_stringify candidates @ [newline, newline] @
     ''Generate a response following the rules above.''"

definition generateChatResponse ::
  "(string \<Rightarrow> js_error + string) \<Rightarrow> (string \<Rightarrow> js_error + json) \<Rightarrow> ('c list \<Rightarrow> string) \<Rightarrow>
   string \<Rightarrow> 'c list \<Rightarrow> js_error + GeminiChatResponse" where
  "generateChatResponse chatModel JSON_parse JSON_stringify userQuery candidates =
     (let prompt = chat_prompt JSON_stringify userQuery candidates;
          attempt =
            (case chatModel prompt of
               Inl thrown \<Rightarrow> Inl thrown
             | Inr responseText \<Rightarrow>
                 (case JSON_parse (extract_json responseText) of
                    Inl thrown \<Rightarrow> Inl thrown
                  | Inr parsed \<Rightarrow>
                      (case GeminiChatResponseSchema_parse parsed of
                         None \<Rightarrow> Inl (Error ''ZodError'')
                       | Some response \<Rightarrow> Inr response)))
      in case attempt of
           Inl error \<Rightarrow> Inl (Error ''Failed to generate chat response'')
         | Inr response \<Rightarrow> Inr response)"

text \<open>
  The second version of the module (src/unnamed/part_000) configures the model with a
  response schema, builds the prompt from tagged sections and parses the reply as it
  is, inside the same \<^verbatim>\<open>try\<close> and \<^verbatim>\<open>catch\<close>.
\<close>

definition chat_prompt_tagged :: "('c list \<Rightarrow> string) \<Rightarrow> string \<Rightarrow> 'c list \<Rightarrow> string" where
  "chat_prompt_tagged JSON_stringify userQuery candidates =
     ''<user_query>'' @ [newline] @ userQuery @ [newline] @ ''</user_query>'' @
     [newline, newline] @
     ''<candidates>'' @ [newline] @ JSON_stringify candidates @ [newline] @ ''</candidates>'' @
     [newline, newline] @
     ''<instructions>'' @ [newline] @
     ''Analyze the user query and the provided candidate assets, then:'' @ [newline] @
     ''1. Select the most relevant assets based on combinedScore and relevance to the query'' @ [newline] @
     ''2. Write a conversational response explaining what you found'' @ [newline] @
     ''3. For each selected asset, provide a clear label and explain why it matches the request'' @ [newline] @
     ''4. If no suitable matches exist, explain why and suggest how to refine the search'' @ [newline] @
     ''</instructions>''"

definition generateChatResponse_structured ::
  "(string \<Rightarrow> js_error + string) \<Rightarrow> (string \<Rightarrow> js_error + json) \<Rightarrow> ('c list \<Rightarrow> string) \<Rightarrow>
   string \<Rightarrow> 'c list \<Rightarrow> js_error + GeminiChatResponse" where
  "generateChatResponse_structured chatModel JSON_parse JSON_stringify userQuery candidates =
     (let prompt = chat_prompt_tagged JSON_stringify userQuery candidates;
          attempt =
            (case chatModel prompt of
               Inl thrown \<Rightarrow> Inl thrown
             | Inr responseText \<Rightarrow>
                 (case JSON_parse responseText of
                    Inl thrown \<Rightarrow> Inl thrown
                  | Inr parsed \<Rightarrow>
                      (case GeminiChatResponseSchema_parse parsed of
                         None \<Rightarrow> Inl (Error ''ZodError'')
                       | Some response \<Rightarrow> Inr response)))
      in case attempt of
           Inl error \<Rightarrow> Inl (Error ''Failed to generate chat response'')
         | Inr response \<Rightarrow> Inr response)"

section \<open>Role resolution (src/lib/auth-helpers.ts)\<close>

text \<open>
  Of the Supabase client the helpers use two operations: \<^verbatim>\<open>auth.getUser()\<close>, which
  resolves to \<^verbatim>\<open>{ data: { user }, error }\<close>, and the query
  \<^verbatim>\<open>from('user_roles').select('role').eq('user_id', userId).single()\<close>, which resolves to
  \<^verbatim>\<open>{ data, error }\<close>; \<^verbatim>\<open>null\<close> is \<open>None\<close>. The stored role is read with a cast
  (\<^verbatim>\<open>data.role as UserRole\<close>), which checks nothing, so it is whatever string the row
  holds. \<open>requireAuth\<close> returns the user unless \<^verbatim>\<open>error || !user\<close>, and \<open>getUserRole\<close>
  the stored role unless \<^verbatim>\<open>error || !data\<close>.
\<close>

record User =
  user_id :: string

record UserResponse =
  user :: "User option"
  auth_error :: "string option"

record RoleRow =
  role :: string

record RoleResponse =
  data :: "RoleRow option"
  error :: "string option"

record SupabaseClient =
  auth_getUser :: UserResponse
  user_roles_single :: "string \<Rightarrow> RoleResponse"

definition requireAuth :: "SupabaseClient \<Rightarrow> js_error + User" where
  "requireAuth supabase =
     (let response = auth_getUser supabase
      in case (auth_error response, user response) of
           (None, Some u) \<Rightarrow> Inr u
         | _ \<Rightarrow> Inl (AuthError ''Not authenticated''))"

definition getUserRole :: "SupabaseClient \<Rightarrow> string \<Rightarrow> string" where
  "getUserRole supabase userId =
     (let response = user_roles_single supabase userId
      in case (error response, data response) of
           (None, Some row) \<Rightarrow> role row
         | _ \<Rightarrow> ''user'')"

definition requireAdmin :: "SupabaseClient \<Rightarrow> js_error + User" where
  "requireAdmin supabase =
     (case requireAuth supabase of
        Inl thrown \<Rightarrow> Inl thrown
      | Inr u \<Rightarrow> if getUserRole supabase (user_id u) \<noteq> ''admin''
                  then Inl (AuthError ''Admin access required'')
                  else Inr u)"

definition isAdmin :: "SupabaseClient \<Rightarrow> string \<Rightarrow> bool" where
  "isAdmin supabase userId = (getUserRole supabase userId = ''admin'')"

section \<open>Example inputs\<close>



text \<open>
  A reply of the model that names an asset of its own invention, the value
  \<^verbatim>\<open>JSON.parse\<close> gives for it, \<^verbatim>\<open>JSON.parse\<close> restricted to this one text, and a
  rendering of the candidates that shows their identifiers.
\<close>

definition fabricated_reply :: string where
  \<open>fabricated_reply = ''{"assistant_message": "Here is one.", "assets": [{"id": "22222222-2222-4222-8222-222222222222", "preview_path": "previews/x.jpg", "label": "Concept car", "reason": "Matches the request"}]}''\<close>

definition fabricated_json :: json where
  "fabricated_json =
     JObject [(''assistant_message'', JString ''Here is one.''),
              (''assets'', JArray [JObject
                 [(''id'', JString ''22222222-2222-4222-8222-222222222222''),
                  (''preview_path'', JString ''previews/x.jpg''),
                  (''label'', JString ''Concept car''),
                  (''reason'', JString ''Matches the request'')]])]"

definition parse_fabricated :: "string \<Rightarrow> js_error + json" where
  "parse_fabricated text =
     (if text = fabricated_reply then Inr fabricated_json
      else Inl (Error ''SyntaxError: Unexpected token''))"

definition stringify_ids :: "ranked list \<Rightarrow> string" where
  "stringify_ids candidates = concat (map (\<lambda>c. cand_id c @ [newline]) candidates)"

text \<open>The one candidate handed to the generator in that example.\<close>

definition known_candidate :: ranked where
  "known_candidate =
     \<lparr>cand_id = ''11111111-1111-4111-8111-111111111111'', score = Num 0.5,
      metadata = \<lparr>image_purchase_date = Num 1700000000000\<rparr>, combinedScore = Num 0.6\<rparr>"

text \<open>
  Two clients: one whose \<^verbatim>\<open>user_roles\<close> table has no row for the signed-in user (the
  query reports the error and no data), one whose table stores the role \<^verbatim>\<open>admin\<close>.
\<close>

definition client_without_role :: SupabaseClient where
  "client_without_role =
     \<lparr>auth_getUser = \<lparr>user = Some \<lparr>user_id = ''u-1''\<rparr>, auth_error = None\<rparr>,
      user_roles_single = (\<lambda>userId. \<lparr>data = None, error = Some ''PGRST116''\<rparr>)\<rparr>"

definition client_with_admin :: SupabaseClient where
  "client_with_admin =
     \<lparr>auth_getUser = \<lparr>user = Some \<lparr>user_id = ''u-1''\<rparr>, auth_error = None\<rparr>,
      user_roles_single =
        (\<lambda>userId. if userId = ''u-1'' then \<lparr>data = Some \<lparr>role = ''admin''\<rparr>, error = None\<rparr>
                   else \<lparr>data = None, error = Some ''PGRST116''\<rparr>)\<rparr>"

section \<open>Properties of the rate limiter\<close>

lemma checkRateLimit_entry:
  "snd (checkRateLimit key config now store) key =
     Some (case store key of
             None \<Rightarrow> \<lparr>count_rl = 1, resetTime = now + windowMs config\<rparr>
           | Some e \<Rightarrow>
               if resetTime e < now then \<lparr>count_rl = 1, resetTime = now + windowMs config\<rparr>
               else \<lparr>count_rl = count_rl e + 1, resetTime = resetTime e\<rparr>)"
  by (simp add: checkRateLimit_def Let_def split: option.splits)

lemma checkRateLimit_other_keys:
  "k \<noteq> key \<Longrightarrow> snd (checkRateLimit key config now store) k = store k"
  by (simp add: checkRateLimit_def Let_def split: option.splits)

lemma checkRateLimit_info:
  "snd (checkRateLimit key config now store) key = Some e' \<Longrightarrow>
   fst (checkRateLimit key config now store) =
     \<lparr>limit = maxRequests config,
      remaining = max 0 (maxRequests config - int (count_rl e')),
      reset = resetTime e'\<rparr>"
  by (auto simp add: checkRateLimit_def Let_def split: option.splits)

lemma checkRateLimit_calls_Cons:
  "fst (checkRateLimit_calls key config (t # ts) store) =
     fst (checkRateLimit key config t store) #
     fst (checkRateLimit_calls key config ts (snd (checkRateLimit key config t store)))"
  by (simp split: prod.splits)

text \<open>
  Calls that all fall inside the current window of an identity: the \<open>i\<close>-th of them
  (from 0) sees the count it found plus \<open>i + 1\<close>.
\<close>

lemma checkRateLimit_calls_window_nth:
  "store key = Some e \<Longrightarrow> \<forall>t\<in>set ts. t \<le> resetTime e \<Longrightarrow> i < length ts \<Longrightarrow>
   fst (checkRateLimit_calls key config ts store) ! i =
     \<lparr>limit = maxRequests config,
      remaining = max 0 (maxRequests config - int (count_rl e + i + 1)),
      reset = resetTime e\<rparr>"
proof (induction ts arbitrary: store e i)
  case Nil
  then show ?case by simp
next
  case (Cons t ts)
  let ?e' = "\<lparr>count_rl = count_rl e + 1, resetTime = resetTime e\<rparr>"
  let ?store' = "snd (checkRateLimit key config t store)"
  have t: "\<not> resetTime e < t" using Cons.prems by auto
  have s': "?store' key = Some ?e'"
    using Cons.prems(1) t by (simp add: checkRateLimit_entry)
  show ?case
  proof (cases i)
    case 0
    then show ?thesis
      using checkRateLimit_info [OF s']
      by (simp del: checkRateLimit_calls.simps add: checkRateLimit_calls_Cons)
  next
    case (Suc j)
    have "fst (checkRateLimit_calls key config ts ?store') ! j =
      \<lparr>limit = maxRequests config,
       remaining = max 0 (maxRequests config - int (count_rl ?e' + j + 1)),
       reset = resetTime ?e'\<rparr>"
      using Cons.IH [of ?store' ?e' j] s' Cons.prems Suc by simp
    then show ?thesis
      using Suc by (simp del: checkRateLimit_calls.simps add: checkRateLimit_calls_Cons)
  qed
qed

text \<open>
  An identity unknown to the store makes a first call at \<open>t0\<close> and further calls before
  the window it opened has run out: call number \<open>i + 1\<close> returns
  \<open>remaining = max 0 (maxRequests - (i + 1))\<close>.
\<close>

lemma checkRateLimit_calls_fresh_nth:
  assumes "store key = None"
    and "\<forall>t\<in>set ts. t \<le> t0 + windowMs config"
    and "i \<le> length ts"
  shows "fst (checkRateLimit_calls key config (t0 # ts) store) ! i =
     \<lparr>limit = maxRequests config,
      remaining = max 0 (maxRequests config - int (i + 1)),
      reset = t0 + windowMs config\<rparr>"
proof -
  let ?e' = "\<lparr>count_rl = 1, resetTime = t0 + windowMs config\<rparr>"
  let ?store' = "snd (checkRateLimit key config t0 store)"
  have s': "?store' key = Some ?e'"
    using assms(1) by (simp add: checkRateLimit_entry)
  show ?thesis
  proof (cases i)
    case 0
    then show ?thesis
      using checkRateLimit_info [OF s']
      by (simp del: checkRateLimit_calls.simps add: checkRateLimit_calls_Cons)
  next
    case (Suc j)
    then have "fst (checkRateLimit_calls key config ts ?store') ! j =
      \<lparr>limit = maxRequests config,
       remaining = max 0 (maxRequests config - int (count_rl ?e' + j + 1)),
       reset = resetTime ?e'\<rparr>"
      using checkRateLimit_calls_window_nth [of ?store' key ?e' ts j config] s' assms by simp
    then show ?thesis
      using Suc by (simp del: checkRateLimit_calls.simps add: checkRateLimit_calls_Cons)
  qed
qed

text \<open>The window these calls leave behind.\<close>

lemma checkRateLimit_calls_snd_Cons:
  "snd (checkRateLimit_calls key config (t # ts) store) =
     snd (checkRateLimit_calls key config ts (snd (checkRateLimit key config t store)))"
  by (simp split: prod.splits)

lemma checkRateLimit_calls_window_store:
  "store key = Some e \<Longrightarrow> \<forall>t\<in>set ts. t \<le> resetTime e \<Longrightarrow>
   snd (checkRateLimit_calls key config ts store) key =
     Some \<lparr>count_rl = count_rl e + length ts, resetTime = resetTime e\<rparr>"
proof (induction ts arbitrary: store e)
  case Nil
  then show ?case by simp
next
  case (Cons t ts)
  let ?e' = "\<lparr>count_rl = count_rl e + 1, resetTime = resetTime e\<rparr>"
  let ?store' = "snd (checkRateLimit key config t store)"
  have t: "\<not> resetTime e < t" using Cons.prems by auto
  have s': "?store' key = Some ?e'"
    using Cons.prems(1) t by (simp add: checkRateLimit_entry)
  have "snd (checkRateLimit_calls key config ts ?store') key =
     Some \<lparr>count_rl = count_rl ?e' + length ts, resetTime = resetTime ?e'\<rparr>"
    using Cons.IH [of ?store' ?e'] s' Cons.prems by simp
  then show ?case
    by (simp del: checkRateLimit_calls.simps add: checkRateLimit_calls_snd_Cons)
qed

lemma checkRateLimit_calls_fresh_store:
  assumes "store key = None" and "\<forall>t\<in>set ts. t \<le> t0 + windowMs config"
  shows "snd (checkRateLimit_calls key config (t0 # ts) store) key =
     Some \<lparr>count_rl = 1 + length ts, resetTime = t0 + windowMs config\<rparr>"
proof -
  let ?e' = "\<lparr>count_rl = 1, resetTime = t0 + windowMs config\<rparr>"
  let ?store' = "snd (checkRateLimit key config t0 store)"
  have s': "?store' key = Some ?e'"
    using assms(1) by (simp add: checkRateLimit_entry)
  have "snd (checkRateLimit_calls key config ts ?store') key =
     Some \<lparr>count_rl = count_rl ?e' + length ts, resetTime = resetTime ?e'\<rparr>"
    using checkRateLimit_calls_window_store [of ?store' key ?e' ts config] s' assms(2) by simp
  then show ?thesis
    by (simp del: checkRateLimit_calls.simps add: checkRateLimit_calls_snd_Cons)
qed

text \<open>
  C1. Under the default limit of 20 the first 20 calls of a window should be accepted and
  the 21st rejected. The count is incremented before \<^verbatim>\<open>remaining\<close> is computed and
  \<open>isRateLimited\<close> rejects at \<open>remaining \<le> 0\<close>, so the code rejects one call early: an
  identity that calls at time 1000 and twenty more times at time 1001 has its 19th call
  accepted (one request remaining), its 20th call already rejected with
  \<open>remaining = 0\<close>, and its 21st call rejected with \<open>remaining = 0\<close> and the reset time
  61000, which is in the future; a further call at 61001, after the reset time, is
  accepted with \<open>remaining = 19\<close>.
\<close>

theorem checkRateLimit_twentieth_call_rejected:
  "fst (checkRateLimit_calls ''user-1'' DEFAULT_RATE_LIMIT (1000 # replicate 20 1001) Map.empty) ! 18
     = \<lparr>limit = 20, remaining = 1, reset = 61000\<rparr> \<and>
   fst (checkRateLimit_calls ''user-1'' DEFAULT_RATE_LIMIT (1000 # replicate 20 1001) Map.empty) ! 19
     = \<lparr>limit = 20, remaining = 0, reset = 61000\<rparr> \<and>
   isRateLimited
     (fst (checkRateLimit_calls ''user-1'' DEFAULT_RATE_LIMIT (1000 # replicate 20 1001) Map.empty) ! 19) \<and>
   fst (checkRateLimit_calls ''user-1'' DEFAULT_RATE_LIMIT (1000 # replicate 20 1001) Map.empty) ! 20
     = \<lparr>limit = 20, remaining = 0, reset = 61000\<rparr> \<and>
   fst (checkRateLimit ''user-1'' DEFAULT_RATE_LIMIT 61001
          (snd (checkRateLimit_calls ''user-1'' DEFAULT_RATE_LIMIT (1000 # replicate 20 1001)
                  Map.empty)))
     = \<lparr>limit = 20, remaining = 19, reset = 121001\<rparr>"
proof -
  let ?calls = "checkRateLimit_calls ''user-1'' DEFAULT_RATE_LIMIT (1000 # replicate 20 1001) Map.empty"
  have w: "\<forall>t\<in>set (replicate 20 (1001::int)). t \<le> 1000 + windowMs DEFAULT_RATE_LIMIT"
    by (simp add: DEFAULT_RATE_LIMIT_def)
  have nth: "fst ?calls ! i =
      \<lparr>limit = 20, remaining = max 0 (20 - int (i + 1)), reset = 61000\<rparr>" if "i \<le> 20" for i
    using checkRateLimit_calls_fresh_nth
            [of Map.empty "''user-1''" "replicate 20 1001" 1000 DEFAULT_RATE_LIMIT i] w that
    by (simp add: DEFAULT_RATE_LIMIT_def)
  have st: "snd ?calls ''user-1'' = Some \<lparr>count_rl = 21, resetTime = 61000\<rparr>"
    using checkRateLimit_calls_fresh_store
            [of Map.empty "''user-1''" "replicate 20 1001" 1000 DEFAULT_RATE_LIMIT] w
    by (simp add: DEFAULT_RATE_LIMIT_def)
  have e: "snd (checkRateLimit ''user-1'' DEFAULT_RATE_LIMIT 61001 (snd ?calls)) ''user-1'' =
      Some \<lparr>count_rl = 1, resetTime = 121001\<rparr>"
    using st by (simp add: checkRateLimit_entry DEFAULT_RATE_LIMIT_def)
  have after: "fst (checkRateLimit ''user-1'' DEFAULT_RATE_LIMIT 61001 (snd ?calls)) =
      \<lparr>limit = 20, remaining = 19, reset = 121001\<rparr>"
    using checkRateLimit_info [OF e] by (simp add: DEFAULT_RATE_LIMIT_def)
  show ?thesis
    using nth [of 18] nth [of 19] nth [of 20] after by (simp add: isRateLimited_def)
qed

text \<open>
  C7, as stated: the window is recreated exactly when the current time is greater than
  or equal to the stored \<open>resetTime\<close>. The code deletes the entry only when
  \<open>resetTime < now\<close>: a call made at the very millisecond of \<open>resetTime\<close> still counts in
  the old window.
\<close>

theorem checkRateLimit_no_reset_at_resetTime:
  "resetTime \<lparr>count_rl = 5, resetTime = 1000\<rparr> \<le> 1000 \<and>
   snd (checkRateLimit ''user-1'' DEFAULT_RATE_LIMIT 1000
          [''user-1'' \<mapsto> \<lparr>count_rl = 5, resetTime = 1000\<rparr>]) ''user-1''
     = Some \<lparr>count_rl = 6, resetTime = 1000\<rparr> \<and>
   snd (checkRateLimit ''user-1'' DEFAULT_RATE_LIMIT 1000
          [''user-1'' \<mapsto> \<lparr>count_rl = 5, resetTime = 1000\<rparr>]) ''user-1''
     \<noteq> Some \<lparr>count_rl = 1, resetTime = 1000 + windowMs DEFAULT_RATE_LIMIT\<rparr>"
  by (simp add: checkRateLimit_entry)

text \<open>
  C7, amended: for an identity with a stored window, a call recreates the window (count
  1 after its own increment, \<open>resetTime = now + windowMs\<close>) exactly when
  \<open>resetTime < now\<close>; otherwise it keeps \<open>resetTime\<close> and adds one to the count, which
  therefore never decreases within a window. The windows of other identities are left
  as they are.
\<close>

theorem checkRateLimit_window_step:
  "store key = Some e \<Longrightarrow>
   snd (checkRateLimit key config now store) key =
     Some (if resetTime e < now then \<lparr>count_rl = 1, resetTime = now + windowMs config\<rparr>
           else \<lparr>count_rl = count_rl e + 1, resetTime = resetTime e\<rparr>) \<and>
   (\<not> resetTime e < now \<longrightarrow>
      (\<exists>e'. snd (checkRateLimit key config now store) key = Some e' \<and>
            count_rl e \<le> count_rl e' \<and> resetTime e' = resetTime e)) \<and>
   (\<forall>k. k \<noteq> key \<longrightarrow> snd (checkRateLimit key config now store) k = store k)"
  by (simp add: checkRateLimit_entry checkRateLimit_other_keys)

theorem checkRateLimit_window_step_witness:
  "[''user-1'' \<mapsto> \<lparr>count_rl = 5, resetTime = 1000\<rparr>] ''user-1''
     = Some \<lparr>count_rl = 5, resetTime = 1000\<rparr> \<and>
   snd (checkRateLimit ''user-1'' DEFAULT_RATE_LIMIT 1001
          [''user-1'' \<mapsto> \<lparr>count_rl = 5, resetTime = 1000\<rparr>]) ''user-1''
     = Some \<lparr>count_rl = 1, resetTime = 61001\<rparr> \<and>
   snd (checkRateLimit ''user-1'' DEFAULT_RATE_LIMIT 999
          [''user-1'' \<mapsto> \<lparr>count_rl = 5, resetTime = 1000\<rparr>]) ''user-1''
     = Some \<lparr>count_rl = 6, resetTime = 1000\<rparr> \<and>
   snd (checkRateLimit ''user-1'' DEFAULT_RATE_LIMIT 1001
          [''user-1'' \<mapsto> \<lparr>count_rl = 5, resetTime = 1000\<rparr>]) ''user-2'' = None"
  using checkRateLimit_window_step
          [of "[''user-1'' \<mapsto> \<lparr>count_rl = 5, resetTime = 1000\<rparr>]" "''user-1''"
              "\<lparr>count_rl = 5, resetTime = 1000\<rparr>" DEFAULT_RATE_LIMIT 1001]
        checkRateLimit_window_step
          [of "[''user-1'' \<mapsto> \<lparr>count_rl = 5, resetTime = 1000\<rparr>]" "''user-1''"
              "\<lparr>count_rl = 5, resetTime = 1000\<rparr>" DEFAULT_RATE_LIMIT 999]
  by (simp add: DEFAULT_RATE_LIMIT_def)




section \<open>Properties of the ranker\<close>

subsection \<open>The sort\<close>











subsection \<open>Scores\<close>


















section \<open>Properties of the response generator\<close>

lemma uuid_example: "is_uuid ''22222222-2222-4222-8222-222222222222''"
  by (simp add: is_uuid_def is_hex_def)

lemma parse_fabricated_json:
  "GeminiChatResponseSchema_parse fabricated_json =
     Some \<lparr>assistant_message = ''Here is one.'',
           assets = [\<lparr>asset_id = ''22222222-2222-4222-8222-222222222222'', dam_id = Missing,
                      file_name = Missing, url = Missing, preview_path = ''previews/x.jpg'',
                      label = ''Concept car'', reason = ''Matches the request''\<rparr>]\<rparr>"
  by (simp add: fabricated_json_def z_string_uuid_def uuid_example)

lemma extract_json_plain: "extract_json fabricated_reply = fabricated_reply"
  by (simp add: extract_json_def fabricated_reply_def trim_def startsWith_def js_whitespace_def
        fence_def Let_def)

lemma those_map_Some:
  "those (map f vs) = Some as \<Longrightarrow> a \<in> set as \<Longrightarrow> \<exists>v\<in>set vs. f v = Some a"
proof (induction vs arbitrary: as)
  case Nil
  then show ?case by simp
next
  case (Cons v vs)
  obtain b bs where b: "f v = Some b" and bs: "those (map f vs) = Some bs" and as: "as = b # bs"
    using Cons.prems(1) by (auto split: option.splits)
  show ?case
  proof (cases "a = b")
    case True
    then show ?thesis using b by auto
  next
    case False
    then have "a \<in> set bs" using Cons.prems(2) as by simp
    then show ?thesis using Cons.IH [OF bs] by auto
  qed
qed

lemma BrandonAssetSchema_parse_uuid:
  "BrandonAssetSchema_parse v = Some a \<Longrightarrow> is_uuid (asset_id a)"
  by (cases v) (auto simp: z_string_uuid_def split: option.splits if_splits)

lemma GeminiChatResponseSchema_parse_uuid:
  assumes "GeminiChatResponseSchema_parse parsed = Some response"
  shows "\<forall>a\<in>set (assets response). is_uuid (asset_id a)"
proof -
  obtain kvs where p: "parsed = JObject kvs" using assms by (cases parsed) auto
  obtain vs where vs: "map_of kvs ''assets'' = Some (JArray vs)"
      and th: "those (map BrandonAssetSchema_parse vs) = Some (assets response)"
    using assms p
    by (auto split: option.splits elim!: z_array_BrandonAsset.elims)
  show ?thesis using those_map_Some [OF th] BrandonAssetSchema_parse_uuid by blast
qed


lemma generateChatResponse_cases:
  "generateChatResponse chatModel JSON_parse JSON_stringify userQuery candidates =
     (case chatModel (chat_prompt JSON_stringify userQuery candidates) of
        Inl thrown \<Rightarrow> Inl (Error ''Failed to generate chat response'')
      | Inr responseText \<Rightarrow>
          (case JSON_parse (extract_json responseText) of
             Inl thrown \<Rightarrow> Inl (Error ''Failed to generate chat response'')
           | Inr parsed \<Rightarrow>
               (case GeminiChatResponseSchema_parse parsed of
                  None \<Rightarrow> Inl (Error ''Failed to generate chat response'')
                | Some response \<Rightarrow> Inr response)))"
  by (simp add: generateChatResponse_def Let_def split: sum.splits option.splits)

lemma generateChatResponse_structured_cases:
  "generateChatResponse_structured chatModel JSON_parse JSON_stringify userQuery candidates =
     (case chatModel (chat_prompt_tagged JSON_stringify userQuery candidates) of
        Inl thrown \<Rightarrow> Inl (Error ''Failed to generate chat response'')
      | Inr responseText \<Rightarrow>
          (case JSON_parse responseText of
             Inl thrown \<Rightarrow> Inl (Error ''Failed to generate chat response'')
           | Inr parsed \<Rightarrow>
               (case GeminiChatResponseSchema_parse parsed of
                  None \<Rightarrow> Inl (Error ''Failed to generate chat response'')
                | Some response \<Rightarrow> Inr response)))"
  by (simp add: generateChatResponse_structured_def Let_def split: sum.splits option.splits)

lemma those_eq_Some:
  "those xs = Some as \<Longrightarrow> xs = map Some as"
  by (induction xs arbitrary: as) (auto split: option.splits)

lemma GeminiChatResponseSchema_parse_fields:
  assumes "GeminiChatResponseSchema_parse parsed = Some response"
  shows "property parsed ''assistant_message'' = Some (JString (assistant_message response))"
    and "\<exists>vs. property parsed ''assets'' = Some (JArray vs) \<and>
              map BrandonAssetSchema_parse vs = map Some (assets response)"
proof -
  obtain kvs where p: "parsed = JObject kvs" using assms by (cases parsed) auto
  obtain m as where m: "z_string (map_of kvs ''assistant_message'') = Some m"
      and as: "z_array_BrandonAsset (map_of kvs ''assets'') = Some as"
      and r: "response = \<lparr>assistant_message = m, assets = as\<rparr>"
    using assms p by (auto split: option.splits)
  show "property parsed ''assistant_message'' = Some (JString (assistant_message response))"
    using m r p by (auto elim!: z_string.elims)
  obtain vs where vs: "map_of kvs ''assets'' = Some (JArray vs)"
      and th: "those (map BrandonAssetSchema_parse vs) = Some as"
    using as by (auto elim!: z_array_BrandonAsset.elims)
  show "\<exists>vs. property parsed ''assets'' = Some (JArray vs) \<and>
              map BrandonAssetSchema_parse vs = map Some (assets response)"
    using vs those_eq_Some [OF th] r p by auto
qed

text \<open>
  C3, as stated: every asset identifier that generateChatResponse returns belongs to the
  identifiers of the supplied candidates, the function enforcing this for arbitrary
  output of the model. The function checks the reply against the schema only: a reply
  that names an asset absent from the candidates is returned as it is (by both versions
  of the module).
\<close>

theorem generateChatResponse_returns_fabricated_id:
  "generateChatResponse (\<lambda>prompt. Inr fabricated_reply) parse_fabricated stringify_ids
      ''latest concept car'' [known_candidate] =
     Inr \<lparr>assistant_message = ''Here is one.'',
          assets = [\<lparr>asset_id = ''22222222-2222-4222-8222-222222222222'', dam_id = Missing,
                     file_name = Missing, url = Missing, preview_path = ''previews/x.jpg'',
                     label = ''Concept car'', reason = ''Matches the request''\<rparr>]\<rparr> \<and>
   generateChatResponse_structured (\<lambda>prompt. Inr fabricated_reply) parse_fabricated stringify_ids
      ''latest concept car'' [known_candidate] =
     Inr \<lparr>assistant_message = ''Here is one.'',
          assets = [\<lparr>asset_id = ''22222222-2222-4222-8222-222222222222'', dam_id = Missing,
                     file_name = Missing, url = Missing, preview_path = ''previews/x.jpg'',
                     label = ''Concept car'', reason = ''Matches the request''\<rparr>]\<rparr> \<and>
   ''22222222-2222-4222-8222-222222222222'' \<notin> cand_id ` set [known_candidate]"
  by (simp add: generateChatResponse_cases generateChatResponse_structured_cases
        extract_json_plain parse_fabricated_def parse_fabricated_json known_candidate_def)

text \<open>
  C3, amended: for every output of the model that generateChatResponse accepts, the
  value returned is the schema-validated parse of the reply, so every asset identifier
  in it is a string of UUID shape taken from the reply; the candidates reach the result
  only through the prompt (a model that answers the same text whatever the prompt gets
  the same result for any candidates), and no membership in the candidate list is
  checked. The same holds for the second version of the module.
\<close>

theorem generateChatResponse_returns_validated_reply:
  "(generateChatResponse chatModel JSON_parse JSON_stringify userQuery candidates = Inr response
      \<longrightarrow> (\<exists>responseText parsed.
             chatModel (chat_prompt JSON_stringify userQuery candidates) = Inr responseText \<and>
             JSON_parse (extract_json responseText) = Inr parsed \<and>
             GeminiChatResponseSchema_parse parsed = Some response) \<and>
          (\<forall>a\<in>set (assets response). is_uuid (asset_id a))) \<and>
   (generateChatResponse_structured chatModel JSON_parse JSON_stringify userQuery candidates
      = Inr response
      \<longrightarrow> (\<exists>responseText parsed.
             chatModel (chat_prompt_tagged JSON_stringify userQuery candidates) = Inr responseText \<and>
             JSON_parse responseText = Inr parsed \<and>
             GeminiChatResponseSchema_parse parsed = Some response) \<and>
          (\<forall>a\<in>set (assets response). is_uuid (asset_id a))) \<and>
   generateChatResponse (\<lambda>prompt. reply) JSON_parse JSON_stringify userQuery candidates =
     generateChatResponse (\<lambda>prompt. reply) JSON_parse JSON_stringify' userQuery' candidates' \<and>
   generateChatResponse_structured (\<lambda>prompt. reply) JSON_parse JSON_stringify userQuery candidates =
     generateChatResponse_structured (\<lambda>prompt. reply) JSON_parse JSON_stringify' userQuery' candidates'"
proof (intro conjI impI)
  assume a: "generateChatResponse chatModel JSON_parse JSON_stringify userQuery candidates
               = Inr response"
  then show ex: "\<exists>responseText parsed.
             chatModel (chat_prompt JSON_stringify userQuery candidates) = Inr responseText \<and>
             JSON_parse (extract_json responseText) = Inr parsed \<and>
             GeminiChatResponseSchema_parse parsed = Some response"
    by (auto simp: generateChatResponse_cases split: sum.splits option.splits)
  then show "\<forall>a\<in>set (assets response). is_uuid (asset_id a)"
    using GeminiChatResponseSchema_parse_uuid by blast
next
  assume a: "generateChatResponse_structured chatModel JSON_parse JSON_stringify userQuery candidates
               = Inr response"
  then show ex: "\<exists>responseText parsed.
             chatModel (chat_prompt_tagged JSON_stringify userQuery candidates) = Inr responseText \<and>
             JSON_parse responseText = Inr parsed \<and>
             GeminiChatResponseSchema_parse parsed = Some response"
    by (auto simp: generateChatResponse_structured_cases split: sum.splits option.splits)
  then show "\<forall>a\<in>set (assets response). is_uuid (asset_id a)"
    using GeminiChatResponseSchema_parse_uuid by blast
next
  show "generateChatResponse (\<lambda>prompt. reply) JSON_parse JSON_stringify userQuery candidates =
     generateChatResponse (\<lambda>prompt. reply) JSON_parse JSON_stringify' userQuery' candidates'"
    by (simp add: generateChatResponse_cases)
  show "generateChatResponse_structured (\<lambda>prompt. reply) JSON_parse JSON_stringify userQuery candidates =
     generateChatResponse_structured (\<lambda>prompt. reply) JSON_parse JSON_stringify' userQuery' candidates'"
    by (simp add: generateChatResponse_structured_cases)
qed

theorem generateChatResponse_returns_validated_reply_witness:
  "generateChatResponse (\<lambda>prompt. Inr fabricated_reply) parse_fabricated stringify_ids
      ''latest concept car'' [known_candidate] =
     Inr \<lparr>assistant_message = ''Here is one.'',
          assets = [\<lparr>asset_id = ''22222222-2222-4222-8222-222222222222'', dam_id = Missing,
                     file_name = Missing, url = Missing, preview_path = ''previews/x.jpg'',
                     label = ''Concept car'', reason = ''Matches the request''\<rparr>]\<rparr> \<and>
   is_uuid ''22222222-2222-4222-8222-222222222222''"
proof -
  let ?resp = "\<lparr>assistant_message = ''Here is one.'',
          assets = [\<lparr>asset_id = ''22222222-2222-4222-8222-222222222222'', dam_id = Missing,
                     file_name = Missing, url = Missing, preview_path = ''previews/x.jpg'',
                     label = ''Concept car'', reason = ''Matches the request''\<rparr>]\<rparr>"
  have r: "generateChatResponse (\<lambda>prompt. Inr fabricated_reply) parse_fabricated stringify_ids
      ''latest concept car'' [known_candidate] = Inr ?resp"
    by (simp add: generateChatResponse_cases extract_json_plain parse_fabricated_def
          parse_fabricated_json)
  have "\<forall>a\<in>set (assets ?resp). is_uuid (asset_id a)"
    using generateChatResponse_returns_validated_reply [of "\<lambda>prompt. Inr fabricated_reply" parse_fabricated stringify_ids
                 "''latest concept car''" "[known_candidate]" ?resp] r
    by blast
  then show ?thesis using r by simp
qed

text \<open>
  C8. generateChatResponse raises an error if and only if the call of the model fails,
  the reply does not parse as JSON, or the parsed value fails the schema; the error
  raised is then \<^verbatim>\<open>Error('Failed to generate chat response')\<close> whatever was caught; and
  a value is returned only when the whole parsed reply passed the schema, in which case
  it is that reply's own message and assets, nothing coerced and nothing partial.
\<close>

theorem generateChatResponse_fails_generically:
  "((\<exists>e. generateChatResponse chatModel JSON_parse JSON_stringify userQuery candidates = Inl e)
     \<longleftrightarrow>
     (\<exists>thrown. chatModel (chat_prompt JSON_stringify userQuery candidates) = Inl thrown) \<or>
     (\<exists>responseText thrown. chatModel (chat_prompt JSON_stringify userQuery candidates) = Inr responseText \<and>
         JSON_parse (extract_json responseText) = Inl thrown) \<or>
     (\<exists>responseText parsed. chatModel (chat_prompt JSON_stringify userQuery candidates) = Inr responseText \<and>
         JSON_parse (extract_json responseText) = Inr parsed \<and>
         GeminiChatResponseSchema_parse parsed = None)) \<and>
   (\<forall>e. generateChatResponse chatModel JSON_parse JSON_stringify userQuery candidates = Inl e
      \<longrightarrow> e = Error ''Failed to generate chat response'') \<and>
   (\<forall>response.
      generateChatResponse chatModel JSON_parse JSON_stringify userQuery candidates = Inr response
      \<longrightarrow> (\<exists>responseText parsed.
             chatModel (chat_prompt JSON_stringify userQuery candidates) = Inr responseText \<and>
             JSON_parse (extract_json responseText) = Inr parsed \<and>
             GeminiChatResponseSchema_parse parsed = Some response \<and>
             property parsed ''assistant_message'' = Some (JString (assistant_message response)) \<and>
             (\<exists>vs. property parsed ''assets'' = Some (JArray vs) \<and>
                   map BrandonAssetSchema_parse vs = map Some (assets response))))"
proof (intro conjI allI impI)
  let ?r = "generateChatResponse chatModel JSON_parse JSON_stringify userQuery candidates"
  let ?p = "chat_prompt JSON_stringify userQuery candidates"
  show "(\<exists>e. ?r = Inl e) \<longleftrightarrow>
     (\<exists>thrown. chatModel ?p = Inl thrown) \<or>
     (\<exists>responseText thrown. chatModel ?p = Inr responseText \<and> JSON_parse (extract_json responseText) = Inl thrown) \<or>
     (\<exists>responseText parsed. chatModel ?p = Inr responseText \<and> JSON_parse (extract_json responseText) = Inr parsed \<and>
         GeminiChatResponseSchema_parse parsed = None)"
    by (auto simp: generateChatResponse_cases split: sum.splits option.splits)
next
  fix e
  assume "generateChatResponse chatModel JSON_parse JSON_stringify userQuery candidates = Inl e"
  then show "e = Error ''Failed to generate chat response''"
    by (auto simp: generateChatResponse_cases split: sum.splits option.splits)
next
  fix response
  assume "generateChatResponse chatModel JSON_parse JSON_stringify userQuery candidates
            = Inr response"
  then obtain responseText parsed where
      t: "chatModel (chat_prompt JSON_stringify userQuery candidates) = Inr responseText"
      and p: "JSON_parse (extract_json responseText) = Inr parsed"
      and v: "GeminiChatResponseSchema_parse parsed = Some response"
    by (auto simp: generateChatResponse_cases split: sum.splits option.splits)
  show "\<exists>responseText parsed.
             chatModel (chat_prompt JSON_stringify userQuery candidates) = Inr responseText \<and>
             JSON_parse (extract_json responseText) = Inr parsed \<and>
             GeminiChatResponseSchema_parse parsed = Some response \<and>
             property parsed ''assistant_message'' = Some (JString (assistant_message response)) \<and>
             (\<exists>vs. property parsed ''assets'' = Some (JArray vs) \<and>
                   map BrandonAssetSchema_parse vs = map Some (assets response))"
    using t p v GeminiChatResponseSchema_parse_fields [OF v] by blast
qed

theorem generateChatResponse_fails_generically_witness:
  "generateChatResponse (\<lambda>prompt. Inl (Error ''503 Service Unavailable: quota exceeded for key''))
      parse_fabricated stringify_ids ''latest concept car'' [known_candidate]
     = Inl (Error ''Failed to generate chat response'') \<and>
   generateChatResponse (\<lambda>prompt. Inr ''I could not find anything.'')
      parse_fabricated stringify_ids ''latest concept car'' [known_candidate]
     = Inl (Error ''Failed to generate chat response'')"
proof -
  let ?down = "\<lambda>prompt::string. (Inl (Error ''503 Service Unavailable: quota exceeded for key'') :: js_error + string)"
  let ?prose = "\<lambda>prompt::string. (Inr ''I could not find anything.'' :: js_error + string)"
  have "\<exists>e. generateChatResponse ?down parse_fabricated stringify_ids ''latest concept car''
             [known_candidate] = Inl e"
    using generateChatResponse_fails_generically [of ?down parse_fabricated stringify_ids "''latest concept car''" "[known_candidate]"]
    by blast
  then have 1: "generateChatResponse ?down parse_fabricated stringify_ids ''latest concept car''
             [known_candidate] = Inl (Error ''Failed to generate chat response'')"
    using generateChatResponse_fails_generically [of ?down parse_fabricated stringify_ids "''latest concept car''" "[known_candidate]"]
    by blast
  have "parse_fabricated (extract_json ''I could not find anything.'')
          = Inl (Error ''SyntaxError: Unexpected token'')"
    by (simp add: parse_fabricated_def fabricated_reply_def extract_json_def trim_def
          startsWith_def js_whitespace_def fence_def Let_def)
  then have "\<exists>e. generateChatResponse ?prose parse_fabricated stringify_ids ''latest concept car''
             [known_candidate] = Inl e"
    using generateChatResponse_fails_generically [of ?prose parse_fabricated stringify_ids "''latest concept car''" "[known_candidate]"]
    by blast
  then have 2: "generateChatResponse ?prose parse_fabricated stringify_ids ''latest concept car''
             [known_candidate] = Inl (Error ''Failed to generate chat response'')"
    using generateChatResponse_fails_generically [of ?prose parse_fabricated stringify_ids "''latest concept car''" "[known_candidate]"]
    by blast
  show ?thesis using 1 2 by simp
qed

section \<open>Properties of role resolution\<close>

lemma getUserRole_cases:
  "getUserRole supabase userId =
     (case (data (user_roles_single supabase userId), error (user_roles_single supabase userId)) of
        (Some row, None) \<Rightarrow> role row
      | _ \<Rightarrow> ''user'')"
  by (auto simp add: getUserRole_def Let_def split: option.splits)

text \<open>
  C10. Role resolution fails closed: when the \<^verbatim>\<open>user_roles\<close> lookup reports an error or
  finds no row, getUserRole returns \<^verbatim>\<open>'user'\<close>; requireAdmin returns the user exactly
  when authentication succeeded and the lookup found, without error, a row whose stored
  role is \<^verbatim>\<open>'admin'\<close>; in every other case it throws an \<^verbatim>\<open>AuthError\<close>.
\<close>

theorem requireAdmin_fails_closed:
  "(error (user_roles_single supabase userId) \<noteq> None \<or>
    data (user_roles_single supabase userId) = None
      \<longrightarrow> getUserRole supabase userId = ''user'') \<and>
   (requireAdmin supabase = Inr u \<longleftrightarrow>
      requireAuth supabase = Inr u \<and>
      (\<exists>row. data (user_roles_single supabase (user_id u)) = Some row \<and>
             error (user_roles_single supabase (user_id u)) = None \<and>
             role row = ''admin'')) \<and>
   (\<forall>thrown. requireAdmin supabase = Inl thrown \<longrightarrow>
      thrown = AuthError ''Not authenticated'' \<or> thrown = AuthError ''Admin access required'')"
proof (intro conjI allI impI)
  assume "error (user_roles_single supabase userId) \<noteq> None \<or>
          data (user_roles_single supabase userId) = None"
  then show "getUserRole supabase userId = ''user''"
    by (auto simp: getUserRole_cases split: option.splits)
next
  show "requireAdmin supabase = Inr u \<longleftrightarrow>
      requireAuth supabase = Inr u \<and>
      (\<exists>row. data (user_roles_single supabase (user_id u)) = Some row \<and>
             error (user_roles_single supabase (user_id u)) = None \<and>
             role row = ''admin'')"
    by (auto simp: requireAdmin_def getUserRole_cases split: sum.splits option.splits if_splits)
next
  fix thrown
  assume "requireAdmin supabase = Inl thrown"
  then show "thrown = AuthError ''Not authenticated'' \<or> thrown = AuthError ''Admin access required''"
    by (auto simp: requireAdmin_def requireAuth_def Let_def split: sum.splits option.splits if_splits)
qed

theorem requireAdmin_fails_closed_witness:
  "data (user_roles_single client_without_role ''u-1'') = None \<and>
   getUserRole client_without_role ''u-1'' = ''user'' \<and>
   requireAdmin client_without_role = Inl (AuthError ''Admin access required'') \<and>
   requireAdmin client_with_admin = Inr \<lparr>user_id = ''u-1''\<rparr>"
proof -
  have d: "data (user_roles_single client_without_role ''u-1'') = None"
    by (simp add: client_without_role_def)
  have r: "getUserRole client_without_role ''u-1'' = ''user''"
    using requireAdmin_fails_closed [of client_without_role "''u-1''"] d by blast
  have "requireAdmin client_without_role \<noteq> Inr \<lparr>user_id = ''u-1''\<rparr>"
    using requireAdmin_fails_closed [of client_without_role "''u-1''" "\<lparr>user_id = ''u-1''\<rparr>"] d
    by simp
  moreover have "requireAuth client_without_role = Inr \<lparr>user_id = ''u-1''\<rparr>"
    by (simp add: requireAuth_def client_without_role_def)
  ultimately have n: "requireAdmin client_without_role = Inl (AuthError ''Admin access required'')"
    by (simp add: requireAdmin_def split: if_splits)
  have "requireAuth client_with_admin = Inr \<lparr>user_id = ''u-1''\<rparr>"
    by (simp add: requireAuth_def client_with_admin_def)
  then have a: "requireAdmin client_with_admin = Inr \<lparr>user_id = ''u-1''\<rparr>"
    using requireAdmin_fails_closed [of client_with_admin "''u-1''" "\<lparr>user_id = ''u-1''\<rparr>"]
    by (simp add: client_with_admin_def)
  show ?thesis using d r n a by simp
qed

end
